theory Spec2Isabelle
  imports Main
begin

section \<open>Values of the Go runtime that the package handles\<close>

text \<open>
  The package \<open>customresource\<close> (file \<open>handler.go\<close>) wraps a caller-supplied provisioning
  function into an AWS Lambda handler: \<open>Invoke\<close> decodes the payload, calls the function
  under a \<open>recover\<close>, and reports the outcome with one HTTP PUT to the request's
  \<open>ResponseURL\<close>.

  A \<open>[]byte\<close> is a \<open>string\<close> (a list of characters). A Go \<open>error\<close> value is given by the
  text its \<open>Error()\<close> method returns. A value that can accompany a panic (\<open>interface{}\<close>) is
  either an error value or something else; the code looks at such a value only through
  the type assertion \<open>r.(error)\<close> and through the verb \<open>%v\<close>.
\<close>

type_synonym bytes = string

datatype error = GoError (Error: string)

datatype any = ErrorValue error | StringValue string | OtherValue string

text \<open>
  \<open>fmt_v\<close> is the rendering of the verb \<open>%v\<close>: an error prints its \<open>Error()\<close> text, a string
  prints itself, and any other value is represented by the text \<open>%v\<close> prints for it.
\<close>

fun fmt_v :: "any \<Rightarrow> string" where
  "fmt_v (ErrorValue e) = Error e"
| "fmt_v (StringValue s) = s"
| "fmt_v (OtherValue s) = s"

text \<open>\<open>fmt.Errorf\<close> with its format already expanded: a fresh error with the given text.\<close>

definition fmt_Errorf :: "string \<Rightarrow> error" where
  "fmt_Errorf msg = GoError msg"

text \<open>
  A call either returns or panics. The run-time panics of Go (nil dereference, write to a
  nil map, call of a nil function) carry a \<open>runtime.Error\<close>, which is an error value.
\<close>

datatype 'a go = Return 'a | Panic any

definition nil_dereference :: any where
  "nil_dereference =
     ErrorValue (GoError ''runtime error: invalid memory address or nil pointer dereference'')"

definition newline :: string where
  "newline = [CHR 0x0A]"

section \<open>The data model of handler.go\<close>

definition RequestTypeCreate :: string where "RequestTypeCreate = ''Create''"
definition RequestTypeUpdate :: string where "RequestTypeUpdate = ''Update''"
definition RequestTypeDelete :: string where "RequestTypeDelete = ''Delete''"

definition StatusSuccess :: string where "StatusSuccess = ''SUCCESS''"
definition StatusFailed :: string where "StatusFailed = ''FAILED''"

text \<open>
  \<open>net/http\<close>: a request as \<open>reply\<close> builds it (method, URL, header, body; the context is
  carried along unchanged and is not modelled) and the part of a response that \<open>reply\<close>
  reads (the status line and the bytes the body yields).
\<close>

record httpRequest =
  Method :: string
  URL :: string
  Header :: "string \<rightharpoonup> string list"
  Body :: bytes

record httpResponse =
  Status :: string
  StatusCode :: int
  Body :: bytes

text \<open>
  \<open>Request\<close>: the two \<open>json.RawMessage\<close> fields are byte slices, \<open>None\<close> for the nil slice.
\<close>

record Request =
  RequestType :: string
  ResponseURL :: string
  StackId :: string
  RequestId :: string
  ResourceType :: string
  LogicalResourceId :: string
  PhysicalResourceId :: string
  ResourceProperties :: "bytes option"
  OldResourceProperties :: "bytes option"

text \<open>
  \<open>Response\<close>: the type variable \<open>'d\<close> stands for the values of \<open>map[string]interface{}\<close>
  (the nil map among them).
\<close>

record 'd Response =
  Data :: 'd
  PhysicalResourceId :: string
  NoEcho :: bool

text \<open>
  \<open>replyInput\<close>: \<open>Data\<close> is an \<open>interface{}\<close>; \<open>None\<close> is the nil interface, the zero value
  of the field.
\<close>

record 'd replyInput =
  Status :: string
  Reason :: string
  PhysicalResourceId :: string
  StackId :: string
  RequestId :: string
  LogicalResourceId :: string
  Data :: "'d option"

text \<open>
  \<open>Func\<close>: the provisioning function returns \<open>(*Response, error)\<close>, either of which may be
  nil, or panics. It is taken as a function of the request value: it receives a pointer
  to the decoded request, and the model covers the functions that do not write through it.
\<close>

type_synonym 'd Func = "Request \<Rightarrow> ('d Response option \<times> error option) go"

text \<open>
  An \<open>io.Writer\<close> is either the package's default \<open>ioutil.Discard\<close> or a writer of the
  caller, named by a number. An \<open>http.RoundTripper\<close> is either \<open>http.DefaultTransport\<close> or
  a function of the caller (the \<open>transportFunc\<close> of the tests) from a request to
  \<open>(*http.Response, error)\<close>. The nil interface is \<open>None\<close> in the fields that hold them.
\<close>

datatype writer = ioutil_Discard | Writer nat

datatype transport =
    http_DefaultTransport
  | transportFunc "httpRequest \<Rightarrow> httpResponse option \<times> error option"

text \<open>
  \<open>options\<close> holds what the functional options of \<open>New\<close> set; \<open>Handler\<close> holds the
  provisioning function with the two.
\<close>

record options =
  output' :: "writer option"
  transport :: "transport option"

record 'd Handler =
  fn :: "'d Func option"
  output' :: "writer option"
  transport :: "transport option"

section \<open>The library functions the package calls\<close>

text \<open>
  \<open>encoding/json\<close>, \<open>net/url\<close> and the network behind \<open>http.DefaultTransport\<close> are not
  code of the package. They are parameters of the model:
  \<^item> \<open>json_Unmarshal payload\<close> is the result of \<open>json.Unmarshal(payload, &req)\<close> on a zero
    \<open>Request\<close>: an error, or the request decoded;
  \<^item> \<open>json_Marshal input\<close> is the result of \<open>json.Marshal(input)\<close>;
  \<^item> \<open>url_Parse u\<close> is the error, if any, with which \<open>http.NewRequest\<close> rejects the URL \<open>u\<close>;
  \<^item> \<open>DefaultRoundTrip r\<close> is what \<open>http.DefaultTransport.RoundTrip(r)\<close> returns.
\<close>

record 'd env =
  json_Unmarshal :: "bytes \<Rightarrow> error + Request"
  json_Marshal :: "'d replyInput \<Rightarrow> error + bytes"
  url_Parse :: "string \<Rightarrow> error option"
  DefaultRoundTrip :: "httpRequest \<Rightarrow> httpResponse option \<times> error option"

text \<open>
  \<open>http.NewRequest(method, url, body)\<close> with a valid method (the package passes
  \<open>http.MethodPut\<close> only): it fails exactly when the URL does not parse, and otherwise
  returns a request with an empty header.
\<close>

definition http_MethodPut :: string where
  "http_MethodPut = ''PUT''"

definition http_NewRequest :: "'d env \<Rightarrow> string \<Rightarrow> string \<Rightarrow> bytes \<Rightarrow> error + httpRequest" where
  "http_NewRequest env method url body =
     (case url_Parse env url of
        Some err \<Rightarrow> Inl err
      | None \<Rightarrow> Inr \<lparr>Method = method, URL = url, Header = Map.empty, httpRequest.Body = body\<rparr>)"

definition Header_Set :: "string \<Rightarrow> string \<Rightarrow> (string \<rightharpoonup> string list) \<Rightarrow> (string \<rightharpoonup> string list)" where
  "Header_Set k v hdr = hdr(k \<mapsto> [v])"

fun RoundTrip :: "'d env \<Rightarrow> transport \<Rightarrow> httpRequest \<Rightarrow> httpResponse option \<times> error option" where
  "RoundTrip env http_DefaultTransport r = DefaultRoundTrip env r"
| "RoundTrip env (transportFunc f) r = f r"

section \<open>Effects\<close>

text \<open>
  What a run does to the outside is recorded as a trace, in order: a call of the
  provisioning function, a write of bytes to a writer, a request handed to a transport.
\<close>

datatype event =
    Call Request
  | Write writer string
  | Sent transport httpRequest

fun callbacks :: "event list \<Rightarrow> httpRequest list" where
  "callbacks [] = []"
| "callbacks (Sent t r # tr) = r # callbacks tr"
| "callbacks (_ # tr) = callbacks tr"

fun calls :: "event list \<Rightarrow> Request list" where
  "calls [] = []"
| "calls (Call r # tr) = r # calls tr"
| "calls (_ # tr) = calls tr"

fun written :: "writer \<Rightarrow> event list \<Rightarrow> string" where
  "written w [] = []"
| "written w (Write w' s # tr) = (if w' = w then s @ written w tr else written w tr)"
| "written w (_ # tr) = written w tr"

section \<open>The handler\<close>

text \<open>
  \<open>reply\<close>: marshal the report, build the PUT request, hand it to the transport, and copy
  the response's status line and body to the output. \<open>fmt.Fprintln\<close> and \<open>io.Copy\<close> have
  their results dropped by the code. A nil transport, a nil response returned with a nil
  error, and a nil output are nil dereferences.
\<close>

definition reply :: "'d env \<Rightarrow> 'd Handler \<Rightarrow> Request \<Rightarrow> 'd replyInput \<Rightarrow> error option go \<times> event list" where
  "reply env h req input =
     (case json_Marshal env input of
        Inl _ \<Rightarrow> (Return (Some (fmt_Errorf ''unable to marshal reply'')), [])
      | Inr data \<Rightarrow>
          (case http_NewRequest env http_MethodPut (ResponseURL req) data of
             Inl err \<Rightarrow> (Return (Some err), [])
           | Inr httpReq0 \<Rightarrow>
               (let httpReq = httpReq0\<lparr>Header := Header_Set ''Content-Type'' ''application/json'' (Header httpReq0)\<rparr>
                in case transport h of
                     None \<Rightarrow> (Panic nil_dereference, [])
                   | Some t \<Rightarrow>
                       (case RoundTrip env t httpReq of
                          (_, Some err) \<Rightarrow> (Return (Some err), [Sent t httpReq])
                        | (None, None) \<Rightarrow> (Panic nil_dereference, [Sent t httpReq])
                        | (Some httpResp, None) \<Rightarrow>
                            (case output' h of
                               None \<Rightarrow> (Panic nil_dereference, [Sent t httpReq])
                             | Some w \<Rightarrow>
                                 (Return None,
                                  [Sent t httpReq,
                                   Write w (httpResponse.Status httpResp @ newline),
                                   Write w (httpResponse.Body httpResp)]))))))"

text \<open>
  \<open>replySuccess\<close>: the arguments of \<open>Fprintf\<close> are evaluated first, so a nil \<open>resp\<close> panics
  before anything is written; then the progress line, then the report.
\<close>

definition replySuccess :: "'d env \<Rightarrow> 'd Handler \<Rightarrow> Request \<Rightarrow> 'd Response option \<Rightarrow> error option go \<times> event list" where
  "replySuccess env h req resp_opt =
     (case resp_opt of
        None \<Rightarrow> (Panic nil_dereference, [])
      | Some resp \<Rightarrow>
          (case output' h of
             None \<Rightarrow> (Panic nil_dereference, [])
           | Some w \<Rightarrow>
               (let line = Request.LogicalResourceId req @ '': '' @ RequestType req
                      @ '' succeeded. PhysicalResourceId='' @ Response.PhysicalResourceId resp @ newline;
                    input = \<lparr>Status = StatusSuccess,
                             Reason = '''',
                             PhysicalResourceId = Response.PhysicalResourceId resp,
                             StackId = Request.StackId req,
                             RequestId = Request.RequestId req,
                             LogicalResourceId = Request.LogicalResourceId req,
                             Data = Some (Response.Data resp)\<rparr>
                in case reply env h req input of
                     (r, tr) \<Rightarrow> (r, Write w line # tr))))"

definition replyFailure :: "'d env \<Rightarrow> 'd Handler \<Rightarrow> Request \<Rightarrow> string \<Rightarrow> error option go \<times> event list" where
  "replyFailure env h req reason =
     (case output' h of
        None \<Rightarrow> (Panic nil_dereference, [])
      | Some w \<Rightarrow>
          (let line = Request.LogicalResourceId req @ '': '' @ RequestType req
                 @ '' failed - '' @ reason @ newline;
               input = \<lparr>Status = StatusFailed,
                        Reason = reason,
                        PhysicalResourceId = '''',
                        StackId = '''',
                        RequestId = '''',
                        LogicalResourceId = '''',
                        Data = None\<rparr>
           in case reply env h req input of
                (r, tr) \<Rightarrow> (r, Write w line # tr)))"

text \<open>
  \<open>safeInvoke\<close>: the deferred function turns a panic into the named result \<open>err\<close>, with
  \<open>resp\<close> left nil. Calling a nil \<open>fn\<close> is itself a run-time panic, recovered the same way.
  A panic value is never nil here (since Go 1.21 \<open>panic(nil)\<close> reaches \<open>recover\<close> as a
  \<open>*runtime.PanicNilError\<close>, an error value).
\<close>

definition recovered :: "any \<Rightarrow> error" where
  "recovered r = (case r of ErrorValue v \<Rightarrow> v | _ \<Rightarrow> fmt_Errorf (''recovered from '' @ fmt_v r))"

definition safeInvoke :: "'d Handler \<Rightarrow> Request \<Rightarrow> ('d Response option \<times> error option) \<times> event list" where
  "safeInvoke h req =
     (case fn h of
        None \<Rightarrow> ((None, Some (recovered nil_dereference)), [])
      | Some f \<Rightarrow>
          (case f req of
             Return (resp, err) \<Rightarrow> ((resp, err), [Call req])
           | Panic r \<Rightarrow> ((None, Some (recovered r)), [Call req])))"

text \<open>\<open>Invoke\<close> returns \<open>([]byte, error)\<close>; the byte slice is nil on every path.\<close>

definition Invoke :: "'d env \<Rightarrow> 'd Handler \<Rightarrow> bytes \<Rightarrow> (bytes option \<times> error option) go \<times> event list" where
  "Invoke env h payload =
     (case json_Unmarshal env payload of
        Inl err \<Rightarrow> (Return (None, Some err), [])
      | Inr req \<Rightarrow>
          (case safeInvoke h req of
             ((resp, err_opt), tr1) \<Rightarrow>
               (case (case err_opt of
                        Some err \<Rightarrow> replyFailure env h req (Error err)
                      | None \<Rightarrow> replySuccess env h req resp) of
                  (Return e, tr2) \<Rightarrow> (Return (None, e), tr1 @ tr2)
                | (Panic p, tr2) \<Rightarrow> (Panic p, tr1 @ tr2))))"

section \<open>Options and New\<close>

text \<open>
  \<open>Option\<close> is \<open>func(*options)\<close>: a function that updates the options in place. In the list
  given to \<open>New\<close>, \<open>None\<close> is the nil function, whose call panics. \<open>WithOutput\<close> and
  \<open>WithTransport\<close> test their argument against nil (the case \<open>Some\<close> is \<open>w != nil\<close>).
\<close>

type_synonym Option = "options \<Rightarrow> options"

definition WithOutput :: "writer option \<Rightarrow> Option" where
  "WithOutput w = (\<lambda>os. case w of Some _ \<Rightarrow> os\<lparr>options.output' := w\<rparr> | None \<Rightarrow> os)"

definition WithTransport :: "transport option \<Rightarrow> Option" where
  "WithTransport t = (\<lambda>os. case t of Some _ \<Rightarrow> os\<lparr>options.transport := t\<rparr> | None \<Rightarrow> os)"

fun apply_opts :: "Option option list \<Rightarrow> options \<Rightarrow> options go" where
  "apply_opts [] os = Return os"
| "apply_opts (None # opts) os = Panic nil_dereference"
| "apply_opts (Some opt # opts) os = apply_opts opts (opt os)"

definition New :: "'d Func option \<Rightarrow> Option option list \<Rightarrow> 'd Handler go" where
  "New f opts =
     (case apply_opts opts \<lparr>options.output' = Some ioutil_Discard,
                            options.transport = Some http_DefaultTransport\<rparr> of
        Panic p \<Rightarrow> Panic p
      | Return os \<Rightarrow>
          Return \<lparr>fn = f, Handler.output' = options.output' os, Handler.transport = options.transport os\<rparr>)"

section \<open>Sample values\<close>

text \<open>
  Concrete values in the manner of \<open>handler_test.go\<close>: a request and its payload;
  provisioning functions that succeed with \<open>PhysicalResourceId = blah\<close>, fail with \<open>boom\<close>,
  fail with an error whose message is empty, and panic (with the run-time error of a write
  to a nil map, and with a string); a transport that answers \<open>200 OK\<close> and one that answers
  500; a handler as \<open>New\<close> builds it from that transport and a writer, and one with the
  defaults. The library is stood in for by a decoder that knows the sample payload, an
  encoder that writes the report as a JSON object with its fields in declaration order,
  a URL parser that rejects a space, and a network that refuses the connection; two
  variants have an encoder that fails and a request whose \<open>ResponseURL\<close> does not parse.
\<close>

fun sample_members :: "(string \<times> string) list \<Rightarrow> string" where
  "sample_members [] = []"
| \<open>sample_members [(k, v)] = ''"'' @ k @ ''":"'' @ v @ ''"''\<close>
| \<open>sample_members ((k, v) # kvs) = ''"'' @ k @ ''":"'' @ v @ ''",'' @ sample_members kvs\<close>

definition sample_Marshal :: "(string \<times> string) list replyInput \<Rightarrow> error + bytes" where
  \<open>sample_Marshal input =
     Inr (''{"Status":"'' @ Status input
          @ ''","Reason":"'' @ Reason input
          @ ''","PhysicalResourceId":"'' @ PhysicalResourceId input
          @ ''","StackId":"'' @ StackId input
          @ ''","RequestId":"'' @ RequestId input
          @ ''","LogicalResourceId":"'' @ LogicalResourceId input
          @ ''","Data":'' @ (case Data input of None \<Rightarrow> ''null'' | Some kvs \<Rightarrow> ''{'' @ sample_members kvs @ ''}'')
          @ ''}'')\<close>

definition sample_req :: Request where
  "sample_req =
     \<lparr>RequestType = ''Create'', ResponseURL = ''http://localhost'',
      StackId = ''arn:aws:cloudformation:us-east-1:1:stack/s/1'', RequestId = ''r-1'',
      ResourceType = ''Custom::Thing'', LogicalResourceId = ''Resource'',
      PhysicalResourceId = '''', ResourceProperties = None, OldResourceProperties = None\<rparr>"

definition sample_payload :: bytes where
  \<open>sample_payload =
     ''{"RequestType":"Create","ResponseURL":"http://localhost","StackId":"arn:aws:cloudformation:us-east-1:1:stack/s/1","RequestId":"r-1","ResourceType":"Custom::Thing","LogicalResourceId":"Resource","PhysicalResourceId":""}''\<close>

definition sample_rt :: "httpRequest \<Rightarrow> httpResponse option \<times> error option" where
  "sample_rt r = (Some \<lparr>httpResponse.Status = ''200 OK'', StatusCode = 200, httpResponse.Body = ''''\<rparr>, None)"

definition sample_env :: "(string \<times> string) list env" where
  "sample_env =
     \<lparr>json_Unmarshal = (\<lambda>p. if p = sample_payload then Inr sample_req
                             else Inl (GoError ''unexpected end of JSON input'')),
      json_Marshal = sample_Marshal,
      url_Parse = (\<lambda>u. if CHR '' '' \<in> set u then Some (GoError ''invalid character in host name'') else None),
      DefaultRoundTrip = (\<lambda>r. (None, Some (GoError ''dial tcp 127.0.0.1:80: connect: connection refused'')))\<rparr>"

definition sample_handler :: "(string \<times> string) list Func \<Rightarrow> (string \<times> string) list Handler" where
  "sample_handler f = \<lparr>fn = Some f, output' = Some (Writer 1), transport = Some (transportFunc sample_rt)\<rparr>"

definition sample_ok :: "(string \<times> string) list Func" where
  "sample_ok req = Return (Some \<lparr>Response.Data = [(''Arn'', ''a:b'')], PhysicalResourceId = ''blah'', NoEcho = False\<rparr>, None)"

definition sample_boom :: "(string \<times> string) list Func" where
  "sample_boom req = Return (None, Some (fmt_Errorf ''boom''))"

definition sample_panic_error :: "(string \<times> string) list Func" where
  "sample_panic_error req = Panic (ErrorValue (GoError ''assignment to entry in nil map''))"

definition sample_panic_string :: "(string \<times> string) list Func" where
  "sample_panic_string req = Panic (StringValue ''out of cheese'')"

definition sample_success_body :: bytes where
  \<open>sample_success_body =
     ''{"Status":"SUCCESS","Reason":"","PhysicalResourceId":"blah","StackId":"arn:aws:cloudformation:us-east-1:1:stack/s/1","RequestId":"r-1","LogicalResourceId":"Resource","Data":{"Arn":"a:b"}}''\<close>

definition sample_failed_body :: "string \<Rightarrow> bytes" where
  \<open>sample_failed_body reason =
     ''{"Status":"FAILED","Reason":"'' @ reason
     @ ''","PhysicalResourceId":"","StackId":"","RequestId":"","LogicalResourceId":"","Data":null}''\<close>

definition sample_rt500 :: "httpRequest \<Rightarrow> httpResponse option \<times> error option" where
  "sample_rt500 r =
     (Some \<lparr>httpResponse.Status = ''500 Internal Server Error'', StatusCode = 500,
            httpResponse.Body = ''try again''\<rparr>, None)"

definition sample_empty_error :: "(string \<times> string) list Func" where
  "sample_empty_error req = Return (None, Some (GoError ''''))"

definition sample_env_nan :: "(string \<times> string) list env" where
  "sample_env_nan =
     sample_env\<lparr>json_Marshal := (\<lambda>input. Inl (GoError ''json: unsupported value: NaN''))\<rparr>"

definition sample_env_bad_url :: "(string \<times> string) list env" where
  "sample_env_bad_url =
     sample_env\<lparr>json_Unmarshal := (\<lambda>p. Inr (sample_req\<lparr>ResponseURL := ''http://local host''\<rparr>))\<rparr>"

definition sample_default_handler :: "(string \<times> string) list Handler" where
  "sample_default_handler =
     \<lparr>fn = Some sample_ok, output' = Some ioutil_Discard, transport = Some http_DefaultTransport\<rparr>"

section \<open>Delivery\<close>

lemma reply_response_aux:
  assumes "json_Marshal env input = Inr data"
    and "url_Parse env (ResponseURL req) = None"
    and "transport h = Some t"
    and "RoundTrip env t \<lparr>Method = ''PUT'', URL = ResponseURL req,
           Header = [''Content-Type'' \<mapsto> [''application/json'']], httpRequest.Body = data\<rparr>
         = (Some httpResp, None)"
    and "output' h = Some w"
  shows "reply env h req input =
           (Return None,
            [Sent t \<lparr>Method = ''PUT'', URL = ResponseURL req,
                     Header = [''Content-Type'' \<mapsto> [''application/json'']], httpRequest.Body = data\<rparr>,
             Write w (httpResponse.Status httpResp @ [CHR 0x0A]),
             Write w (httpResponse.Body httpResp)])"
  using assms
  by (simp add: reply_def http_NewRequest_def http_MethodPut_def Header_Set_def newline_def)

lemma reply_marshal_error:
  "json_Marshal env input = Inl e0 \<Longrightarrow>
   reply env h req input = (Return (Some (GoError ''unable to marshal reply'')), [])"
  by (simp add: reply_def fmt_Errorf_def)

lemma reply_url_error:
  "json_Marshal env input = Inr data \<Longrightarrow> url_Parse env (ResponseURL req) = Some e \<Longrightarrow>
   reply env h req input = (Return (Some e), [])"
  by (simp add: reply_def http_NewRequest_def)

lemma reply_transport_error:
  assumes "json_Marshal env input = Inr data"
    and "url_Parse env (ResponseURL req) = None"
    and "transport h = Some t"
    and "RoundTrip env t \<lparr>Method = ''PUT'', URL = ResponseURL req,
           Header = [''Content-Type'' \<mapsto> [''application/json'']], httpRequest.Body = data\<rparr>
         = (x, Some e)"
  shows "reply env h req input =
           (Return (Some e),
            [Sent t \<lparr>Method = ''PUT'', URL = ResponseURL req,
                     Header = [''Content-Type'' \<mapsto> [''application/json'']], httpRequest.Body = data\<rparr>])"
  using assms
  by (cases x) (simp_all add: reply_def http_NewRequest_def http_MethodPut_def Header_Set_def)

lemma callbacks_reply:
  "r \<in> set (callbacks (snd (reply env h req input))) \<Longrightarrow>
   json_Marshal env input = Inr (httpRequest.Body r) \<and> Method r = ''PUT'' \<and> URL r = ResponseURL req"
  by (auto simp: reply_def http_NewRequest_def http_MethodPut_def Let_def
           split: sum.splits option.splits prod.splits)

lemma callbacks_append: "callbacks (xs @ ys) = callbacks xs @ callbacks ys"
  by (induction xs rule: callbacks.induct) simp_all

lemma callbacks_safeInvoke: "callbacks (snd (safeInvoke h req)) = []"
  by (simp add: safeInvoke_def split: option.splits go.splits prod.splits)

lemma callbacks_replyFailure:
  assumes "r \<in> set (callbacks (snd (replyFailure env h req reason)))"
  shows "json_Marshal env
     \<lparr>Status = ''FAILED'', Reason = reason, PhysicalResourceId = '''', StackId = '''',
      RequestId = '''', LogicalResourceId = '''', Data = None\<rparr> = Inr (httpRequest.Body r)"
proof (cases "output' h")
  case None
  with assms show ?thesis by (simp add: replyFailure_def)
next
  case (Some w)
  with assms have "r \<in> set (callbacks (snd (reply env h req
     \<lparr>Status = ''FAILED'', Reason = reason, PhysicalResourceId = '''', StackId = '''',
      RequestId = '''', LogicalResourceId = '''', Data = None\<rparr>)))"
    by (simp add: replyFailure_def StatusFailed_def split: prod.splits)
  then show ?thesis
    using callbacks_reply by blast
qed

lemma Invoke_failure_path:
  assumes "json_Unmarshal env payload = Inr req"
    and "safeInvoke h req = ((resp_opt, Some err), tr1)"
  shows "Invoke env h payload =
           (case replyFailure env h req (Error err) of
              (Return e, tr2) \<Rightarrow> (Return (None, e), tr1 @ tr2)
            | (Panic p, tr2) \<Rightarrow> (Panic p, tr1 @ tr2))"
  using assms by (simp add: Invoke_def)

lemma callbacks_Invoke_failure:
  assumes "json_Unmarshal env payload = Inr req"
    and "safeInvoke h req = ((resp_opt, Some err), tr1)"
  shows "callbacks (snd (Invoke env h payload)) = callbacks (snd (replyFailure env h req (Error err)))"
proof -
  have "callbacks tr1 = []"
    using callbacks_safeInvoke [of h req] assms(2) by simp
  then show ?thesis
    by (simp add: Invoke_failure_path [OF assms] callbacks_append split: prod.splits go.splits)
qed

text \<open>
  A provisioning function that returns a nil response with a nil error is not a successful
  outcome: \<open>replySuccess\<close> dereferences the response, and \<open>Invoke\<close> panics before anything
  is written or sent.
\<close>

lemma Invoke_nil_response:
  assumes "json_Unmarshal env payload = Inr req"
    and "fn h = Some f"
    and "f req = Return (None, None)"
  shows "Invoke env h payload = (Panic nil_dereference, [Call req])"
  using assms by (simp add: Invoke_def safeInvoke_def replySuccess_def)

section \<open>Invoke\<close>

text \<open>
  C4. A payload that does not decode: \<open>Invoke\<close> returns the decode error at once; the
  provisioning function is not called and no request reaches the transport (the trace is
  empty).
\<close>

theorem Invoke_decode_error:
  assumes "json_Unmarshal env payload = Inl err"
  shows "Invoke env h payload = (Return (None, Some err), [])
       \<and> calls (snd (Invoke env h payload)) = []
       \<and> callbacks (snd (Invoke env h payload)) = []"
  using assms by (simp add: Invoke_def)

theorem Invoke_decode_error_witness:
  "json_Unmarshal sample_env ''{'' = Inl (GoError ''unexpected end of JSON input'')
   \<and> Invoke sample_env (sample_handler sample_ok) ''{''
       = (Return (None, Some (GoError ''unexpected end of JSON input'')), [])"
  using Invoke_decode_error [of sample_env "''{''" "GoError ''unexpected end of JSON input''"
          "sample_handler sample_ok"]
  by (simp add: sample_env_def sample_payload_def)

text \<open>
  C1. A payload that decodes and a provisioning function that returns a response and no
  error: once the report marshals, the URL parses and the transport answers, \<open>Invoke\<close>
  returns no error, having called the function once, written the progress line, and sent
  one PUT to the request's \<open>ResponseURL\<close> whose body is the marshalled report with
  \<open>Status = SUCCESS\<close>, \<open>PhysicalResourceId\<close> and \<open>Data\<close> of the response, and \<open>StackId\<close>,
  \<open>RequestId\<close>, \<open>LogicalResourceId\<close> of the request.
\<close>

theorem Invoke_success:
  assumes "json_Unmarshal env payload = Inr req"
    and "fn h = Some f"
    and "f req = Return (Some resp, None)"
    and "output' h = Some w"
    and "transport h = Some t"
    and "json_Marshal env
           \<lparr>Status = ''SUCCESS'', Reason = '''',
            PhysicalResourceId = Response.PhysicalResourceId resp,
            StackId = Request.StackId req,
            RequestId = Request.RequestId req,
            LogicalResourceId = Request.LogicalResourceId req,
            Data = Some (Response.Data resp)\<rparr> = Inr data"
    and "url_Parse env (ResponseURL req) = None"
    and "RoundTrip env t \<lparr>Method = ''PUT'', URL = ResponseURL req,
           Header = [''Content-Type'' \<mapsto> [''application/json'']], httpRequest.Body = data\<rparr>
         = (Some httpResp, None)"
  shows "Invoke env h payload =
           (Return (None, None),
            [Call req,
             Write w (Request.LogicalResourceId req @ '': '' @ RequestType req
                      @ '' succeeded. PhysicalResourceId='' @ Response.PhysicalResourceId resp
                      @ [CHR 0x0A]),
             Sent t \<lparr>Method = ''PUT'', URL = ResponseURL req,
                     Header = [''Content-Type'' \<mapsto> [''application/json'']], httpRequest.Body = data\<rparr>,
             Write w (httpResponse.Status httpResp @ [CHR 0x0A]),
             Write w (httpResponse.Body httpResp)])"
  using assms
  by (simp add: Invoke_def safeInvoke_def replySuccess_def StatusSuccess_def newline_def
        reply_response_aux [where data = data and httpResp = httpResp])

theorem Invoke_success_witness:
  "json_Unmarshal sample_env sample_payload = Inr sample_req
   \<and> Invoke sample_env (sample_handler sample_ok) sample_payload =
       (Return (None, None),
        [Call sample_req,
         Write (Writer 1) (''Resource: Create succeeded. PhysicalResourceId=blah'' @ [CHR 0x0A]),
         Sent (transportFunc sample_rt)
           \<lparr>Method = ''PUT'', URL = ''http://localhost'',
            Header = [''Content-Type'' \<mapsto> [''application/json'']],
            httpRequest.Body = sample_success_body\<rparr>,
         Write (Writer 1) (''200 OK'' @ [CHR 0x0A]),
         Write (Writer 1) ''''])"
  using Invoke_success [where env = sample_env and payload = sample_payload and req = sample_req
          and h = "sample_handler sample_ok" and f = sample_ok
          and resp = "\<lparr>Response.Data = [(''Arn'', ''a:b'')], PhysicalResourceId = ''blah'', NoEcho = False\<rparr>"
          and w = "Writer 1" and t = "transportFunc sample_rt" and data = sample_success_body
          and httpResp = "\<lparr>httpResponse.Status = ''200 OK'', StatusCode = 200, httpResponse.Body = ''''\<rparr>"]
  by (simp add: sample_env_def sample_handler_def sample_ok_def sample_req_def sample_rt_def
        sample_Marshal_def sample_success_body_def)

text \<open>
  C2. A provisioning function that returns an error: the report sent has
  \<open>Status = FAILED\<close> and the error's message as \<open>Reason\<close>, and \<open>Invoke\<close> returns no error
  once the transport answers.
\<close>

theorem Invoke_provisioning_error:
  assumes "json_Unmarshal env payload = Inr req"
    and "fn h = Some f"
    and "f req = Return (resp_opt, Some err)"
    and "output' h = Some w"
    and "transport h = Some t"
    and "json_Marshal env
           \<lparr>Status = ''FAILED'', Reason = Error err, PhysicalResourceId = '''', StackId = '''',
            RequestId = '''', LogicalResourceId = '''', Data = None\<rparr> = Inr data"
    and "url_Parse env (ResponseURL req) = None"
    and "RoundTrip env t \<lparr>Method = ''PUT'', URL = ResponseURL req,
           Header = [''Content-Type'' \<mapsto> [''application/json'']], httpRequest.Body = data\<rparr>
         = (Some httpResp, None)"
  shows "Invoke env h payload =
           (Return (None, None),
            [Call req,
             Write w (Request.LogicalResourceId req @ '': '' @ RequestType req
                      @ '' failed - '' @ Error err @ [CHR 0x0A]),
             Sent t \<lparr>Method = ''PUT'', URL = ResponseURL req,
                     Header = [''Content-Type'' \<mapsto> [''application/json'']], httpRequest.Body = data\<rparr>,
             Write w (httpResponse.Status httpResp @ [CHR 0x0A]),
             Write w (httpResponse.Body httpResp)])"
  using assms
  by (simp add: Invoke_def safeInvoke_def replyFailure_def StatusFailed_def newline_def
        reply_response_aux [where data = data and httpResp = httpResp])

theorem Invoke_provisioning_error_witness:
  "sample_boom sample_req = Return (None, Some (GoError ''boom''))
   \<and> Invoke sample_env (sample_handler sample_boom) sample_payload =
       (Return (None, None),
        [Call sample_req,
         Write (Writer 1) (''Resource: Create failed - boom'' @ [CHR 0x0A]),
         Sent (transportFunc sample_rt)
           \<lparr>Method = ''PUT'', URL = ''http://localhost'',
            Header = [''Content-Type'' \<mapsto> [''application/json'']],
            httpRequest.Body = sample_failed_body ''boom''\<rparr>,
         Write (Writer 1) (''200 OK'' @ [CHR 0x0A]),
         Write (Writer 1) ''''])"
  using Invoke_provisioning_error [where env = sample_env and payload = sample_payload
          and req = sample_req and h = "sample_handler sample_boom" and f = sample_boom
          and resp_opt = None and err = "GoError ''boom''"
          and w = "Writer 1" and t = "transportFunc sample_rt" and data = "sample_failed_body ''boom''"
          and httpResp = "\<lparr>httpResponse.Status = ''200 OK'', StatusCode = 200, httpResponse.Body = ''''\<rparr>"]
  by (simp add: sample_env_def sample_handler_def sample_boom_def sample_req_def sample_rt_def
        sample_Marshal_def sample_failed_body_def fmt_Errorf_def)

text \<open>
  C3. A provisioning function that panics: \<open>safeInvoke\<close> returns normally, with the panic
  value itself as the error when it is an error value, and otherwise with a new error
  whose message is \<open>recovered from\<close> followed by the value as \<open>%v\<close> prints it. \<open>Invoke\<close> then
  sends a report with \<open>Status = FAILED\<close> and that message as \<open>Reason\<close>, and returns no error
  once the transport answers.
\<close>

theorem Invoke_panic_contained:
  assumes "json_Unmarshal env payload = Inr req"
    and "fn h = Some f"
    and "f req = Panic r"
    and "err = (case r of ErrorValue v \<Rightarrow> v | StringValue s \<Rightarrow> GoError (''recovered from '' @ s)
                | OtherValue s \<Rightarrow> GoError (''recovered from '' @ s))"
    and "output' h = Some w"
    and "transport h = Some t"
    and "json_Marshal env
           \<lparr>Status = ''FAILED'', Reason = Error err, PhysicalResourceId = '''', StackId = '''',
            RequestId = '''', LogicalResourceId = '''', Data = None\<rparr> = Inr data"
    and "url_Parse env (ResponseURL req) = None"
    and "RoundTrip env t \<lparr>Method = ''PUT'', URL = ResponseURL req,
           Header = [''Content-Type'' \<mapsto> [''application/json'']], httpRequest.Body = data\<rparr>
         = (Some httpResp, None)"
  shows "safeInvoke h req = ((None, Some err), [Call req])
       \<and> Invoke env h payload =
           (Return (None, None),
            [Call req,
             Write w (Request.LogicalResourceId req @ '': '' @ RequestType req
                      @ '' failed - '' @ Error err @ [CHR 0x0A]),
             Sent t \<lparr>Method = ''PUT'', URL = ResponseURL req,
                     Header = [''Content-Type'' \<mapsto> [''application/json'']], httpRequest.Body = data\<rparr>,
             Write w (httpResponse.Status httpResp @ [CHR 0x0A]),
             Write w (httpResponse.Body httpResp)])"
proof -
  have rec: "recovered r = err"
    using assms(4) by (cases r) (simp_all add: recovered_def fmt_Errorf_def)
  have si: "safeInvoke h req = ((None, Some err), [Call req])"
    using assms(2,3) rec by (simp add: safeInvoke_def)
  have "Invoke env h payload =
          (case replyFailure env h req (Error err) of
             (Return e, tr2) \<Rightarrow> (Return (None, e), [Call req] @ tr2)
           | (Panic p, tr2) \<Rightarrow> (Panic p, [Call req] @ tr2))"
    by (rule Invoke_failure_path [OF assms(1) si])
  then show ?thesis
    using si assms(5-9)
    by (simp add: replyFailure_def StatusFailed_def newline_def
          reply_response_aux [where data = data and httpResp = httpResp])
qed

theorem Invoke_panic_contained_witness:
  "safeInvoke (sample_handler sample_panic_error) sample_req
     = ((None, Some (GoError ''assignment to entry in nil map'')), [Call sample_req])
   \<and> map httpRequest.Body (callbacks (snd (Invoke sample_env (sample_handler sample_panic_error) sample_payload)))
     = [sample_failed_body ''assignment to entry in nil map'']
   \<and> fst (Invoke sample_env (sample_handler sample_panic_error) sample_payload) = Return (None, None)
   \<and> safeInvoke (sample_handler sample_panic_string) sample_req
     = ((None, Some (GoError ''recovered from out of cheese'')), [Call sample_req])
   \<and> map httpRequest.Body (callbacks (snd (Invoke sample_env (sample_handler sample_panic_string) sample_payload)))
     = [sample_failed_body ''recovered from out of cheese'']
   \<and> fst (Invoke sample_env (sample_handler sample_panic_string) sample_payload) = Return (None, None)"
  using Invoke_panic_contained [where env = sample_env and payload = sample_payload
          and req = sample_req and h = "sample_handler sample_panic_error" and f = sample_panic_error
          and r = "ErrorValue (GoError ''assignment to entry in nil map'')"
          and err = "GoError ''assignment to entry in nil map''"
          and w = "Writer 1" and t = "transportFunc sample_rt"
          and data = "sample_failed_body ''assignment to entry in nil map''"
          and httpResp = "\<lparr>httpResponse.Status = ''200 OK'', StatusCode = 200, httpResponse.Body = ''''\<rparr>"]
        Invoke_panic_contained [where env = sample_env and payload = sample_payload
          and req = sample_req and h = "sample_handler sample_panic_string" and f = sample_panic_string
          and r = "StringValue ''out of cheese''"
          and err = "GoError ''recovered from out of cheese''"
          and w = "Writer 1" and t = "transportFunc sample_rt"
          and data = "sample_failed_body ''recovered from out of cheese''"
          and httpResp = "\<lparr>httpResponse.Status = ''200 OK'', StatusCode = 200, httpResponse.Body = ''''\<rparr>"]
  by (simp add: sample_env_def sample_handler_def sample_panic_error_def sample_panic_string_def
        sample_req_def sample_rt_def sample_Marshal_def sample_failed_body_def)

text \<open>
  C5. A payload that decodes, and a provisioning function that returned a response, or
  an error, or panicked: when the delivery of the report fails with the error \<open>e\<close>
  (marshalling fails, and \<open>e\<close> is the error \<open>unable to marshal reply\<close>; or the request
  cannot be built, with \<open>e\<close>; or the transport returns \<open>e\<close>), \<open>Invoke\<close> returns \<open>e\<close>.
\<close>

theorem Invoke_delivery_error:
  assumes "json_Unmarshal env payload = Inr req"
    and "output' h = Some w"
    and "safeInvoke h req = ((resp_opt, err_opt), tr1)"
    and "err_opt = None \<longrightarrow> resp_opt = Some resp"
    and "input = (case err_opt of
                    None \<Rightarrow>
                      \<lparr>Status = ''SUCCESS'', Reason = '''',
                       PhysicalResourceId = Response.PhysicalResourceId resp,
                       StackId = Request.StackId req,
                       RequestId = Request.RequestId req,
                       LogicalResourceId = Request.LogicalResourceId req,
                       Data = Some (Response.Data resp)\<rparr>
                  | Some err \<Rightarrow>
                      \<lparr>Status = ''FAILED'', Reason = Error err, PhysicalResourceId = '''',
                       StackId = '''', RequestId = '''', LogicalResourceId = '''', Data = None\<rparr>)"
    and "(\<exists>e0. json_Marshal env input = Inl e0 \<and> e = GoError ''unable to marshal reply'')
       \<or> (\<exists>data. json_Marshal env input = Inr data \<and> url_Parse env (ResponseURL req) = Some e)
       \<or> (\<exists>data t x. json_Marshal env input = Inr data \<and> url_Parse env (ResponseURL req) = None
             \<and> transport h = Some t
             \<and> RoundTrip env t \<lparr>Method = ''PUT'', URL = ResponseURL req,
                   Header = [''Content-Type'' \<mapsto> [''application/json'']],
                   httpRequest.Body = data\<rparr> = (x, Some e))"
  shows "fst (Invoke env h payload) = Return (None, Some e)"
proof -
  have r: "fst (reply env h req input) = Return (Some e)"
    using assms(6) reply_marshal_error [of env input _ h req]
      reply_url_error [of env input _ req e h]
      reply_transport_error [of env input _ req h _ _ e]
    by fastforce
  then obtain tr2 where rp: "reply env h req input = (Return (Some e), tr2)"
    by (cases "reply env h req input") simp
  show ?thesis
  proof (cases err_opt)
    case None
    with assms(4) have "resp_opt = Some resp" by simp
    with None assms(1,2,3,5) rp show ?thesis
      by (simp add: Invoke_def replySuccess_def StatusSuccess_def)
  next
    case (Some err)
    with assms(1,2,3,5) rp show ?thesis
      by (simp add: Invoke_def replyFailure_def StatusFailed_def)
  qed
qed

theorem Invoke_delivery_error_witness:
  "fst (safeInvoke sample_default_handler sample_req)
     = (Some \<lparr>Response.Data = [(''Arn'', ''a:b'')], PhysicalResourceId = ''blah'', NoEcho = False\<rparr>,
        None)
   \<and> fst (Invoke sample_env sample_default_handler sample_payload)
     = Return (None, Some (GoError ''dial tcp 127.0.0.1:80: connect: connection refused''))
   \<and> fst (Invoke sample_env_nan (sample_handler sample_ok) sample_payload)
     = Return (None, Some (GoError ''unable to marshal reply''))
   \<and> fst (Invoke sample_env_bad_url (sample_handler sample_boom) sample_payload)
     = Return (None, Some (GoError ''invalid character in host name''))"
proof -
  let ?resp = "\<lparr>Response.Data = [(''Arn'', ''a:b'')], PhysicalResourceId = ''blah'', NoEcho = False\<rparr>"
  let ?ok = "\<lparr>Status = ''SUCCESS'', Reason = '''', PhysicalResourceId = ''blah'',
              StackId = ''arn:aws:cloudformation:us-east-1:1:stack/s/1'', RequestId = ''r-1'',
              LogicalResourceId = ''Resource'', Data = Some [(''Arn'', ''a:b'')]\<rparr>"
  let ?failed = "\<lparr>Status = ''FAILED'', Reason = ''boom'', PhysicalResourceId = '''',
                  StackId = '''', RequestId = '''', LogicalResourceId = '''',
                  Data = None :: (string \<times> string) list option\<rparr>"
  have si: "safeInvoke sample_default_handler sample_req = ((Some ?resp, None), [Call sample_req])"
    by (simp add: safeInvoke_def sample_default_handler_def sample_ok_def)
  have refused: "fst (Invoke sample_env sample_default_handler sample_payload)
        = Return (None, Some (GoError ''dial tcp 127.0.0.1:80: connect: connection refused''))"
    by (rule Invoke_delivery_error [where req = sample_req and w = ioutil_Discard
          and resp_opt = "Some ?resp" and err_opt = None and resp = ?resp and input = ?ok
          and ?tr1.0 = "[Call sample_req]", OF _ _ si])
       (auto simp: sample_env_def sample_default_handler_def sample_req_def sample_Marshal_def)
  have nan: "fst (Invoke sample_env_nan (sample_handler sample_ok) sample_payload)
        = Return (None, Some (GoError ''unable to marshal reply''))"
    by (rule Invoke_delivery_error [where req = sample_req and w = "Writer 1"
          and resp_opt = "Some ?resp" and err_opt = None and resp = ?resp and input = ?ok
          and ?tr1.0 = "[Call sample_req]"])
       (auto simp: sample_env_nan_def sample_env_def sample_handler_def sample_req_def
          sample_ok_def safeInvoke_def)
  have url: "fst (Invoke sample_env_bad_url (sample_handler sample_boom) sample_payload)
        = Return (None, Some (GoError ''invalid character in host name''))"
    by (rule Invoke_delivery_error [where req = "sample_req\<lparr>ResponseURL := ''http://local host''\<rparr>"
          and w = "Writer 1" and resp_opt = None and err_opt = "Some (GoError ''boom'')"
          and input = ?failed and ?tr1.0 = "[Call (sample_req\<lparr>ResponseURL := ''http://local host''\<rparr>)]"])
       (auto simp: sample_env_bad_url_def sample_env_def sample_handler_def sample_req_def
          sample_boom_def safeInvoke_def sample_Marshal_def fmt_Errorf_def)
  from si refused nan url show ?thesis by simp
qed

text \<open>
  C6. Whenever the transport returns a response, \<open>reply\<close> returns no error, whatever the
  status code of the response, and the status line (followed by a newline) and then the
  body are written to the handler's output.
\<close>

theorem reply_transport_response:
  assumes "json_Marshal env input = Inr data"
    and "url_Parse env (ResponseURL req) = None"
    and "transport h = Some t"
    and "output' h = Some w"
    and "RoundTrip env t \<lparr>Method = ''PUT'', URL = ResponseURL req,
           Header = [''Content-Type'' \<mapsto> [''application/json'']], httpRequest.Body = data\<rparr>
         = (Some \<lparr>httpResponse.Status = status, StatusCode = code, httpResponse.Body = body\<rparr>, None)"
  shows "fst (reply env h req input) = Return None
       \<and> written w (snd (reply env h req input)) = status @ [CHR 0x0A] @ body
       \<and> snd (reply env h req input) =
           [Sent t \<lparr>Method = ''PUT'', URL = ResponseURL req,
                    Header = [''Content-Type'' \<mapsto> [''application/json'']], httpRequest.Body = data\<rparr>,
            Write w (status @ [CHR 0x0A]),
            Write w body]"
  using assms
  by (simp add: reply_def http_NewRequest_def http_MethodPut_def Header_Set_def newline_def)

theorem reply_transport_response_witness:
  "reply sample_env
     \<lparr>fn = Some sample_ok, output' = Some (Writer 1), transport = Some (transportFunc sample_rt500)\<rparr>
     sample_req
     \<lparr>Status = ''FAILED'', Reason = ''boom'', PhysicalResourceId = '''', StackId = '''',
      RequestId = '''', LogicalResourceId = '''', Data = None\<rparr>
   = (Return None,
      [Sent (transportFunc sample_rt500)
         \<lparr>Method = ''PUT'', URL = ''http://localhost'',
          Header = [''Content-Type'' \<mapsto> [''application/json'']],
          httpRequest.Body = sample_failed_body ''boom''\<rparr>,
       Write (Writer 1) (''500 Internal Server Error'' @ [CHR 0x0A]),
       Write (Writer 1) ''try again''])"
  using reply_transport_response [where env = sample_env
          and input = "\<lparr>Status = ''FAILED'', Reason = ''boom'', PhysicalResourceId = '''',
                         StackId = '''', RequestId = '''', LogicalResourceId = '''', Data = None\<rparr>"
          and data = "sample_failed_body ''boom''" and req = sample_req
          and h = "\<lparr>fn = Some sample_ok, output' = Some (Writer 1),
                     transport = Some (transportFunc sample_rt500)\<rparr>"
          and t = "transportFunc sample_rt500" and w = "Writer 1"
          and status = "''500 Internal Server Error''" and code = 500 and body = "''try again''"]
  by (simp add: sample_env_def sample_Marshal_def sample_failed_body_def sample_req_def
        sample_rt500_def prod_eq_iff)

text \<open>
  C7. On the failure path (the provisioning function returned an error, or panicked and
  \<open>safeInvoke\<close> recovered), every request that \<open>Invoke\<close> hands to the transport carries the
  marshalled report with \<open>Status = FAILED\<close> and \<open>Reason\<close> set, and with
  \<open>PhysicalResourceId\<close>, \<open>StackId\<close>, \<open>RequestId\<close>, \<open>LogicalResourceId\<close> empty (and \<open>Data\<close> nil),
  whatever the request holds in these fields.
\<close>

theorem failure_report_fields:
  assumes "json_Unmarshal env payload = Inr req"
    and "safeInvoke h req = ((resp_opt, Some err), tr1)"
  shows "\<forall>r \<in> set (callbacks (snd (Invoke env h payload))).
           json_Marshal env
             \<lparr>Status = ''FAILED'', Reason = Error err, PhysicalResourceId = '''', StackId = '''',
              RequestId = '''', LogicalResourceId = '''', Data = None\<rparr>
           = Inr (httpRequest.Body r)"
  using callbacks_Invoke_failure [OF assms] callbacks_replyFailure [of _ env h req "Error err"]
  by simp

theorem failure_report_fields_witness:
  "Request.StackId sample_req = ''arn:aws:cloudformation:us-east-1:1:stack/s/1''
   \<and> Request.RequestId sample_req = ''r-1''
   \<and> Request.LogicalResourceId sample_req = ''Resource''
   \<and> map httpRequest.Body
        (callbacks (snd (Invoke sample_env (sample_handler sample_boom) sample_payload)))
      = [sample_failed_body ''boom'']
   \<and> list_all (\<lambda>r. json_Marshal sample_env
                      \<lparr>Status = ''FAILED'', Reason = ''boom'', PhysicalResourceId = '''',
                       StackId = '''', RequestId = '''', LogicalResourceId = '''', Data = None\<rparr>
                    = Inr (httpRequest.Body r))
        (callbacks (snd (Invoke sample_env (sample_handler sample_boom) sample_payload)))"
proof -
  have dec: "json_Unmarshal sample_env sample_payload = Inr sample_req"
    by (simp add: sample_env_def)
  have si: "safeInvoke (sample_handler sample_boom) sample_req
            = ((None, Some (GoError ''boom'')), [Call sample_req])"
    by (simp add: safeInvoke_def sample_handler_def sample_boom_def fmt_Errorf_def)
  have cb: "map httpRequest.Body
              (callbacks (snd (Invoke sample_env (sample_handler sample_boom) sample_payload)))
            = [sample_failed_body ''boom'']"
    by (simp add: Invoke_def safeInvoke_def replyFailure_def reply_def http_NewRequest_def
          sample_env_def sample_handler_def sample_boom_def sample_req_def sample_rt_def
          sample_Marshal_def sample_failed_body_def StatusFailed_def fmt_Errorf_def)
  from failure_report_fields [OF dec si] cb show ?thesis
    by (simp add: list_all_iff sample_req_def)
qed

text \<open>
  C8. It is not true that a report with \<open>Status = FAILED\<close> always has a non-empty
  \<open>Reason\<close>: a provisioning function that returns an error whose message is empty gets a
  report with \<open>Status = FAILED\<close> and an empty \<open>Reason\<close> delivered, and \<open>Invoke\<close> returns no
  error.
\<close>

theorem failed_reason_nonempty_counterexample:
  "sample_empty_error sample_req = Return (None, Some (GoError ''''))
   \<and> map (Inr \<circ> httpRequest.Body)
         (callbacks (snd (Invoke sample_env (sample_handler sample_empty_error) sample_payload)))
       = [json_Marshal sample_env
            \<lparr>Status = ''FAILED'', Reason = '''', PhysicalResourceId = '''', StackId = '''',
             RequestId = '''', LogicalResourceId = '''', Data = None\<rparr>]
   \<and> fst (Invoke sample_env (sample_handler sample_empty_error) sample_payload)
       = Return (None, None)"
  by (simp add: Invoke_def safeInvoke_def replyFailure_def reply_def http_NewRequest_def
        sample_env_def sample_handler_def sample_empty_error_def sample_req_def sample_rt_def
        sample_Marshal_def StatusFailed_def)

text \<open>
  C8, as amended. When the provisioning function returns an error or panics, the
  \<open>Reason\<close> of the report is the message of that error: the \<open>Error()\<close> text of the error
  returned or of the error that was the panic value, or \<open>recovered from\<close> followed by the
  \<open>%v\<close> text of a panic value that is not an error. So \<open>Reason\<close> is non-empty whenever that
  error's message is non-empty, and always after a panic with a value that is not an error.
\<close>

theorem failed_report_reason:
  assumes "json_Unmarshal env payload = Inr req"
    and "fn h = Some f"
    and "(f req = Return (resp_opt, Some e) \<or> f req = Panic (ErrorValue e)) \<and> msg = Error e
       \<or> (f req = Panic (StringValue s) \<or> f req = Panic (OtherValue s))
           \<and> msg = ''recovered from '' @ s"
  shows "(\<forall>r \<in> set (callbacks (snd (Invoke env h payload))).
            json_Marshal env
              \<lparr>Status = ''FAILED'', Reason = msg, PhysicalResourceId = '''', StackId = '''',
               RequestId = '''', LogicalResourceId = '''', Data = None\<rparr>
            = Inr (httpRequest.Body r))
       \<and> (msg = [] \<longrightarrow>
            Error e = [] \<and> (f req = Return (resp_opt, Some e) \<or> f req = Panic (ErrorValue e)))"
proof -
  from assms(2,3) obtain err ro where si: "safeInvoke h req = ((ro, Some err), [Call req])"
    and msg: "Error err = msg"
    by (auto simp: safeInvoke_def recovered_def fmt_Errorf_def)
  have "\<forall>r \<in> set (callbacks (snd (Invoke env h payload))).
            json_Marshal env
              \<lparr>Status = ''FAILED'', Reason = msg, PhysicalResourceId = '''', StackId = '''',
               RequestId = '''', LogicalResourceId = '''', Data = None\<rparr>
            = Inr (httpRequest.Body r)"
    using callbacks_Invoke_failure [OF assms(1) si] callbacks_replyFailure [of _ env h req msg] msg
    by simp
  moreover have "msg = [] \<longrightarrow>
            Error e = [] \<and> (f req = Return (resp_opt, Some e) \<or> f req = Panic (ErrorValue e))"
    using assms(3) by auto
  ultimately show ?thesis by blast
qed

theorem failed_report_reason_witness:
  "sample_panic_string sample_req = Panic (StringValue ''out of cheese'')
   \<and> map httpRequest.Body
        (callbacks (snd (Invoke sample_env (sample_handler sample_panic_string) sample_payload)))
      = [sample_failed_body ''recovered from out of cheese'']
   \<and> list_all (\<lambda>r. json_Marshal sample_env
                      \<lparr>Status = ''FAILED'', Reason = ''recovered from out of cheese'',
                       PhysicalResourceId = '''', StackId = '''', RequestId = '''',
                       LogicalResourceId = '''', Data = None\<rparr>
                    = Inr (httpRequest.Body r))
        (callbacks (snd (Invoke sample_env (sample_handler sample_panic_string) sample_payload)))"
proof -
  have dec: "json_Unmarshal sample_env sample_payload = Inr sample_req"
    by (simp add: sample_env_def)
  have f: "fn (sample_handler sample_panic_string) = Some sample_panic_string"
    by (simp add: sample_handler_def)
  have p: "sample_panic_string sample_req = Panic (StringValue ''out of cheese'')"
    by (simp add: sample_panic_string_def)
  have cb: "map httpRequest.Body
              (callbacks (snd (Invoke sample_env (sample_handler sample_panic_string) sample_payload)))
            = [sample_failed_body ''recovered from out of cheese'']"
    by (simp add: Invoke_def safeInvoke_def recovered_def replyFailure_def reply_def
          http_NewRequest_def sample_env_def sample_handler_def sample_panic_string_def
          sample_req_def sample_rt_def sample_Marshal_def sample_failed_body_def StatusFailed_def
          fmt_Errorf_def)
  from failed_report_reason [where msg = "''recovered from out of cheese''"
         and s = "''out of cheese''", OF dec f] p cb
  show ?thesis
    by (simp add: list_all_iff)
qed

section \<open>New\<close>

lemma apply_opts_append:
  "apply_opts (xs @ ys) os =
     (case apply_opts xs os of Panic p \<Rightarrow> Panic p | Return os' \<Rightarrow> apply_opts ys os')"
  by (induction xs os rule: apply_opts.induct) simp_all

lemma apply_opts_total:
  "None \<notin> set opts \<Longrightarrow> \<exists>os'. apply_opts opts os = Return os'"
  by (induction opts os rule: apply_opts.induct) simp_all

lemma apply_opts_not_nil:
  assumes "\<forall>opt \<in> set opts.
             opt = None \<or> opt \<in> Some ` range WithOutput \<or> opt \<in> Some ` range WithTransport"
    and "options.output' os \<noteq> None" and "options.transport os \<noteq> None"
    and "apply_opts opts os = Return os'"
  shows "options.output' os' \<noteq> None \<and> options.transport os' \<noteq> None"
  using assms
proof (induction opts os rule: apply_opts.induct)
  case (1 os)
  then show ?case by simp
next
  case (2 opts os)
  then show ?case by simp
next
  case (3 opt opts os)
  from "3.prems"(1) have "opt \<in> range WithOutput \<or> opt \<in> range WithTransport"
    by auto
  then have "options.output' (opt os) \<noteq> None \<and> options.transport (opt os) \<noteq> None"
    using "3.prems"(2,3) by (auto simp: WithOutput_def WithTransport_def split: option.splits)
  with 3 show ?case by simp
qed

text \<open>
  C10. For every list of options built with \<open>WithOutput\<close> and \<open>WithTransport\<close> (nil
  functions allowed in the list: \<open>New\<close> then panics and constructs no handler), the handler
  that \<open>New\<close> constructs has a non-nil output and a non-nil transport, and \<open>New\<close> does
  construct one when no option is nil. \<open>WithOutput(nil)\<close> and \<open>WithTransport(nil)\<close> change
  nothing wherever they stand in the list, so that alone they leave \<open>ioutil.Discard\<close> and
  \<open>http.DefaultTransport\<close> in place.
\<close>

theorem New_never_nil:
  assumes "\<forall>opt \<in> set opts.
             opt = None \<or> opt \<in> Some ` range WithOutput \<or> opt \<in> Some ` range WithTransport"
  shows "(\<forall>h. New f opts = Return h \<longrightarrow> output' h \<noteq> None \<and> transport h \<noteq> None)
       \<and> (None \<notin> set opts \<longrightarrow> (\<exists>h. New f opts = Return h))
       \<and> New f (xs @ Some (WithOutput None) # ys) = New f (xs @ ys)
       \<and> New f (xs @ Some (WithTransport None) # ys) = New f (xs @ ys)
       \<and> New f [Some (WithOutput None), Some (WithTransport None)]
           = Return \<lparr>fn = f, output' = Some ioutil_Discard, transport = Some http_DefaultTransport\<rparr>"
proof -
  let ?d = "\<lparr>options.output' = Some ioutil_Discard, options.transport = Some http_DefaultTransport\<rparr>"
  have a: "\<forall>h. New f opts = Return h \<longrightarrow> output' h \<noteq> None \<and> transport h \<noteq> None"
  proof (intro allI impI)
    fix h assume h: "New f opts = Return h"
    then obtain os' where os': "apply_opts opts ?d = Return os'"
      and hh: "h = \<lparr>fn = f, output' = options.output' os', transport = options.transport os'\<rparr>"
      by (auto simp: New_def split: go.splits)
    from apply_opts_not_nil [OF assms _ _ os'] hh
    show "output' h \<noteq> None \<and> transport h \<noteq> None" by simp
  qed
  have b: "None \<notin> set opts \<longrightarrow> (\<exists>h. New f opts = Return h)"
  proof
    assume "None \<notin> set opts"
    from apply_opts_total [OF this, of ?d] show "\<exists>h. New f opts = Return h"
      by (auto simp: New_def)
  qed
  have c: "New f (xs @ Some (WithOutput None) # ys) = New f (xs @ ys)"
    by (simp add: New_def apply_opts_append WithOutput_def split: go.splits)
  have d: "New f (xs @ Some (WithTransport None) # ys) = New f (xs @ ys)"
    by (simp add: New_def apply_opts_append WithTransport_def split: go.splits)
  have e: "New f [Some (WithOutput None), Some (WithTransport None)]
           = Return \<lparr>fn = f, output' = Some ioutil_Discard, transport = Some http_DefaultTransport\<rparr>"
    by (simp add: New_def WithOutput_def WithTransport_def)
  from a b c d e show ?thesis by blast
qed

theorem New_never_nil_witness:
  "New (Some sample_ok)
     [Some (WithOutput None), Some (WithTransport (Some (transportFunc sample_rt))),
      Some (WithTransport None), Some (WithOutput (Some (Writer 1)))]
   = Return (sample_handler sample_ok)
   \<and> output' (sample_handler sample_ok) \<noteq> None
   \<and> transport (sample_handler sample_ok) \<noteq> None
   \<and> New (Some sample_ok) [Some (WithOutput None), Some (WithTransport None)]
       = Return \<lparr>fn = Some sample_ok, output' = Some ioutil_Discard,
                 transport = Some http_DefaultTransport\<rparr>"
proof -
  let ?opts = "[Some (WithOutput None), Some (WithTransport (Some (transportFunc sample_rt))),
      Some (WithTransport None), Some (WithOutput (Some (Writer 1)))]"
  have n: "New (Some sample_ok) ?opts = Return (sample_handler sample_ok)"
    by (simp add: New_def WithOutput_def WithTransport_def sample_handler_def)
  have "\<forall>opt \<in> set ?opts.
          opt = None \<or> opt \<in> Some ` range WithOutput \<or> opt \<in> Some ` range WithTransport"
    by simp
  from New_never_nil [OF this, of "Some sample_ok"] n show ?thesis
    by simp
qed

end
